theory Spec2Isabelle
  imports Complex_Main "HOL-Library.AList"
begin

section \<open>The session logger of \<^verbatim>\<open>src/lib/session-logger.ts\<close>\<close>

text \<open>
  The logger is a closure over a dozen mutable variables and the sessions directory on
  disk. The model is explicit state passing: one record holds the closure variables and
  the directory, and every function of the source takes the record and returns it updated.

  Representation choices, all on the side of the source:
  \<^item> JavaScript numbers are modelled exactly: counts and milliseconds as \<open>int\<close> (the
    exchange counter as \<open>nat\<close>), money as \<open>rat\<close>. Rounding of IEEE doubles is not modelled.
  \<^item> An optional field of an incoming message is an \<open>option\<close>; \<open>v || d\<close> is written out
    by \<open>num_or\<close> and \<open>str_or\<close>.
  \<^item> A file is the list of its lines, as \<^verbatim>\<open>content.trim().split("\n")\<close> yields them, and a
    line is what \<^verbatim>\<open>JSON.parse\<close> makes of it. \<^verbatim>\<open>JSON.stringify\<close> followed by \<^verbatim>\<open>JSON.parse\<close>
    is taken to give the record back.
  \<^item> The directory is an association list from file name to file, in the order in which
    \<^verbatim>\<open>readdirSync\<close> lists it; \<open>filePath\<close> holds the file name (\<^verbatim>\<open>path.join\<close> with the fixed
    directory is injective and never empty).
  \<^item> The clock reading of a call is an argument \<open>now\<close> of the call; the two readings of
    \<^verbatim>\<open>handleSystemMessage\<close> are taken at the same instant.
  \<^item> \<^verbatim>\<open>ensureSessionsDir\<close> has no counterpart: a missing directory is the empty one.
  \<^item> \<^verbatim>\<open>toolsUsed\<close> is an association list in insertion order, as the keys of the object
    are; tool names are not names of properties of \<^verbatim>\<open>Object.prototype\<close>.
\<close>

subsection \<open>Sub-events, statistics and the three record kinds of a log file\<close>

text \<open>Interface \<^verbatim>\<open>Message\<close>: a tagged union over the pairs (source, type).\<close>

datatype message =
    TextMsg string string
      \<comment> \<open>source assistant, type text: text, ts\<close>
  | ToolUseMsg string string "string option" string
      \<comment> \<open>source assistant, type tool\_use: tool\_use\_id, name, input, ts\<close>
  | ToolResultMsg string bool "string option" string
      \<comment> \<open>source tool, type result: tool\_use\_id, is\_error, output, ts\<close>

record tokens =
  t_input :: int
  t_output :: int
  cache_creation :: int
  cache_read :: int

text \<open>Interface \<^verbatim>\<open>ExchangeStats\<close>.\<close>

record exchange_stats =
  num_turns :: int
  duration_ms :: int
  duration_api_ms :: "int option"
  tokens_in :: int
  tokens_out :: int
  st_cache_creation :: int
  st_cache_read :: int
  cost_usd :: rat

record session_start_rec =
  ss_session_id :: string
  ss_ts :: string
  model :: string
  cwd :: string
  tools_available :: "string list"
  permission_mode :: string

record exchange_rec =
  ex_session_id :: string
  exchange :: nat
  ts_start :: string
  ts_end :: string
  user_input :: string
  messages :: "message list"
  stats :: exchange_stats

text \<open>
  The fields of a \<^verbatim>\<open>session_end\<close> line that \<^verbatim>\<open>loadPreviousSessionStats\<close> reads through
  \<^verbatim>\<open>||\<close> are optional; \<^verbatim>\<open>close\<close> always writes them.
\<close>

record session_end_rec =
  se_session_id :: string
  se_ts :: string
  total_exchanges :: nat
  total_duration_ms :: "int option"
  total_duration_api_ms :: "int option"
  total_cost_usd :: "rat option"
  total_tokens :: "tokens option"
  tools_used :: "(string \<times> int) list option"

text \<open>
  A line of a log file, seen through \<^verbatim>\<open>JSON.parse\<close>. \<open>Malformed\<close>: the parse throws (also
  the empty line). \<open>JsonNull\<close>: the parse yields \<^verbatim>\<open>null\<close>, and reading \<^verbatim>\<open>parsed.type\<close> throws.
  \<open>OtherJson\<close>: any other value whose \<^verbatim>\<open>type\<close> is none of the three kinds. The records
  have the fields that the logger writes; an \<^verbatim>\<open>exchange\<close> line without an ordinal is one with
  ordinal 0, which the scan skips likewise.
\<close>

datatype line =
    Malformed
  | JsonNull
  | SessionStart session_start_rec
  | Exchange exchange_rec
  | SessionEnd session_end_rec
  | OtherJson

type_synonym log_file = "line list"
type_synonym directory = "(string \<times> log_file) list"

subsection \<open>The messages of the agent runtime\<close>

datatype block_content = StringContent string | JsonContent string
  \<comment> \<open>\<open>JsonContent s\<close>: a non-string value whose \<^verbatim>\<open>JSON.stringify\<close> is \<open>s\<close>\<close>

record block =
  b_type :: "string option"
  b_text :: "string option"
  b_id :: "string option"
  b_name :: "string option"
  b_input :: "string option"
  b_tool_use_id :: "string option"
  b_is_error :: "bool option"
  b_content :: "block_content option"

record init_message =
  m_session_id :: "string option"
  m_model :: "string option"
  m_cwd :: "string option"
  m_tools :: "string list option"
  m_permissionMode :: "string option"

record usage =
  input_tokens :: "int option"
  output_tokens :: "int option"
  cache_creation_input_tokens :: "int option"
  cache_read_input_tokens :: "int option"

record result_message =
  m_num_turns :: "int option"
  m_duration_ms :: "int option"
  m_duration_api_ms :: "int option"
  m_usage :: "usage option"
  m_total_cost_usd :: "rat option"

text \<open>
  \<^verbatim>\<open>SDKMessage = any\<close>, by the \<^verbatim>\<open>type\<close> tag that \<^verbatim>\<open>log\<close> switches on. The argument of
  \<open>SystemMsg\<close> is \<^verbatim>\<open>subtype\<close>; that of \<open>AssistantMsg\<close> and \<open>UserMsg\<close> is \<^verbatim>\<open>message?.content\<close>
  (\<open>None\<close> when it is missing or falsy). \<open>OtherMsg\<close> is a falsy message, one without a
  \<^verbatim>\<open>type\<close>, or one of an unknown type. The elements of a content are objects; a content
  that is a string is iterated by character and behaves as a list of blocks without type.
\<close>

datatype sdk_message =
    SystemMsg "string option" init_message
  | AssistantMsg "block list option"
  | UserMsg "block list option"
  | ResultMsg result_message
  | OtherMsg

subsection \<open>The state: closure variables and the sessions directory\<close>

record logger =
  sessionId :: string
  filePath :: string
  exchangeCount :: nat
  currentMessages :: "message list"
  currentUserInput :: string
  exchangeStartTs :: string
  totalDurationMs :: int
  totalDurationApiMs :: int
  totalCostUsd :: rat
  lastExchangeTokens :: tokens
  toolsUsed :: "(string \<times> int) list"
  sessionModel :: string
  sessionCwd :: string
  sessionTools :: "string list"
  sessionPermissionMode :: string
  disk :: directory

definition zero_tokens :: tokens where
  "zero_tokens = \<lparr>t_input = 0, t_output = 0, cache_creation = 0, cache_read = 0\<rparr>"

text \<open>\<^verbatim>\<open>createSessionLogger\<close>: the initial values of the closure variables, over a directory.\<close>

definition createSessionLogger :: "directory \<Rightarrow> logger" where
  "createSessionLogger d =
     \<lparr>sessionId = '''', filePath = '''', exchangeCount = 0, currentMessages = [],
      currentUserInput = '''', exchangeStartTs = '''',
      totalDurationMs = 0, totalDurationApiMs = 0, totalCostUsd = 0,
      lastExchangeTokens = zero_tokens, toolsUsed = [],
      sessionModel = '''', sessionCwd = '''', sessionTools = [],
      sessionPermissionMode = ''default'', disk = d\<rparr>"

subsection \<open>JavaScript idioms\<close>

text \<open>\<^verbatim>\<open>v || 0\<close> on a number that may be missing.\<close>

definition num_or :: "'a::zero option \<Rightarrow> 'a" where
  "num_or v = (case v of None \<Rightarrow> 0 | Some n \<Rightarrow> n)"

text \<open>\<^verbatim>\<open>v || d\<close> on a string that may be missing: the empty string is falsy.\<close>

definition str_or :: "string option \<Rightarrow> string \<Rightarrow> string" where
  "str_or v d = (case v of None \<Rightarrow> d | Some s \<Rightarrow> if s = [] then d else s)"

definition truthy :: "string option \<Rightarrow> bool" where
  "truthy v = (case v of None \<Rightarrow> False | Some s \<Rightarrow> s \<noteq> [])"

definition endsWith :: "string \<Rightarrow> string \<Rightarrow> bool" where
  "endsWith s suf = (length suf \<le> length s \<and> drop (length s - length suf) s = suf)"

fun replace_first :: "char \<Rightarrow> char \<Rightarrow> string \<Rightarrow> string" where
  "replace_first a b [] = []"
| "replace_first a b (c # cs) = (if c = a then b # cs else c # replace_first a b cs)"

subsection \<open>The file system calls\<close>

definition existsSync :: "directory \<Rightarrow> string \<Rightarrow> bool" where
  "existsSync d p = (map_of d p \<noteq> None)"

text \<open>\<open>None\<close>: the read throws.\<close>

definition readFileSync :: "directory \<Rightarrow> string \<Rightarrow> log_file option" where
  "readFileSync d p = map_of d p"

definition writeFileSync :: "string \<Rightarrow> log_file \<Rightarrow> directory \<Rightarrow> directory" where
  "writeFileSync p f d = AList.update p f d"

definition appendFileSync :: "string \<Rightarrow> line \<Rightarrow> directory \<Rightarrow> directory" where
  "appendFileSync p l d =
     writeFileSync p (case map_of d p of None \<Rightarrow> [l] | Some f \<Rightarrow> f @ [l]) d"

definition readdirSync :: "directory \<Rightarrow> string list" where
  "readdirSync d = map fst d"

text \<open>
  \<^verbatim>\<open>content.trim().split("\n")\<close>: a blank file splits into the single empty line, which does
  not parse.
\<close>

definition split_lines :: "log_file \<Rightarrow> line list" where
  "split_lines f = (if f = [] then [Malformed] else f)"

definition throws :: "line \<Rightarrow> bool" where
  "throws l = (case l of Malformed \<Rightarrow> True | JsonNull \<Rightarrow> True | _ \<Rightarrow> False)"

subsection \<open>The functions of the logger\<close>

definition appendLine :: "line \<Rightarrow> logger \<Rightarrow> logger" where
  "appendLine data st =
     (if filePath st = [] then st
      else st\<lparr>disk := appendFileSync (filePath st) data (disk st)\<rparr>)"

definition sessionIdShort :: "string \<Rightarrow> string" where
  "sessionIdShort sid = take 8 sid"

definition findExistingSessionFile :: "string \<Rightarrow> directory \<Rightarrow> string option" where
  "findExistingSessionFile sid d =
     List.find (\<lambda>name. endsWith name (''_'' @ sessionIdShort sid @ ''.jsonl'')) (readdirSync d)"

text \<open>
  The loop of \<^verbatim>\<open>getLastExchangeNumber\<close>, with the running maximum as accumulator;
  \<open>None\<close> when a line throws.
\<close>

fun scan_exchanges :: "line list \<Rightarrow> nat \<Rightarrow> nat option" where
  "scan_exchanges [] maxExchange = Some maxExchange"
| "scan_exchanges (l # ls) maxExchange =
     (if throws l then None
      else case l of
        Exchange parsed \<Rightarrow>
          scan_exchanges ls
            (if exchange parsed \<noteq> 0 then max maxExchange (exchange parsed) else maxExchange)
      | _ \<Rightarrow> scan_exchanges ls maxExchange)"

definition getLastExchangeNumber :: "string \<Rightarrow> directory \<Rightarrow> nat" where
  "getLastExchangeNumber p d =
     (case readFileSync d p of
        None \<Rightarrow> 0
      | Some content \<Rightarrow>
          (case scan_exchanges (split_lines content) 0 of None \<Rightarrow> 0 | Some n \<Rightarrow> n))"

text \<open>
  The loop of \<^verbatim>\<open>loadPreviousSessionStats\<close> runs from the last line to the first: the
  argument is the reversed list. \<open>None\<close> when a line throws before a \<^verbatim>\<open>session_end\<close> is
  met, or when there is none.
\<close>

fun scan_session_end :: "line list \<Rightarrow> session_end_rec option" where
  "scan_session_end [] = None"
| "scan_session_end (l # ls) =
     (if throws l then None
      else case l of SessionEnd parsed \<Rightarrow> Some parsed | _ \<Rightarrow> scan_session_end ls)"

text \<open>\<^verbatim>\<open>Object.assign(toolsUsed, src)\<close>, key by key.\<close>

definition object_assign :: "(string \<times> int) list \<Rightarrow> (string \<times> int) list \<Rightarrow> (string \<times> int) list" where
  "object_assign target src = fold (\<lambda>(k, v). AList.update k v) src target"

definition loadPreviousSessionStats :: "string \<Rightarrow> logger \<Rightarrow> logger" where
  "loadPreviousSessionStats p st =
     (case readFileSync (disk st) p of
        None \<Rightarrow> st
      | Some content \<Rightarrow>
          (case scan_session_end (rev (split_lines content)) of
             None \<Rightarrow> st
           | Some parsed \<Rightarrow>
               st\<lparr>totalDurationMs := num_or (total_duration_ms parsed),
                  totalDurationApiMs := num_or (total_duration_api_ms parsed),
                  totalCostUsd := num_or (total_cost_usd parsed),
                  lastExchangeTokens :=
                    (case total_tokens parsed of None \<Rightarrow> zero_tokens | Some t \<Rightarrow> t),
                  toolsUsed :=
                    (case tools_used parsed of
                       None \<Rightarrow> toolsUsed st
                     | Some src \<Rightarrow> object_assign (toolsUsed st) src)\<rparr>))"

definition removeLastSessionEnd :: "logger \<Rightarrow> logger" where
  "removeLastSessionEnd st =
     (if filePath st = [] \<or> \<not> existsSync (disk st) (filePath st) then st
      else case readFileSync (disk st) (filePath st) of
        None \<Rightarrow> st
      | Some content \<Rightarrow>
          (let lines = split_lines content in
           case last lines of
             SessionEnd parsed \<Rightarrow>
               st\<lparr>disk := writeFileSync (filePath st) (butlast lines) (disk st)\<rparr>
           | _ \<Rightarrow> st))"

text \<open>
  The file name of a new session: the ISO timestamp without \<^verbatim>\<open>-\<close> and \<^verbatim>\<open>:\<close>, its first
  \<^verbatim>\<open>T\<close> replaced by \<^verbatim>\<open>_\<close>, cut to 15 characters.
\<close>

definition new_filename :: "string \<Rightarrow> string \<Rightarrow> string" where
  "new_filename now sid =
     take 15 (replace_first CHR ''T'' CHR ''_''
                (filter (\<lambda>c. c \<noteq> CHR ''-'' \<and> c \<noteq> CHR '':'') now))
     @ ''_'' @ sessionIdShort sid @ ''.jsonl''"

definition handleSystemMessage :: "string \<Rightarrow> init_message \<Rightarrow> logger \<Rightarrow> logger" where
  "handleSystemMessage now m st0 =
     (let st = st0\<lparr>sessionId := str_or (m_session_id m) '''',
                   sessionModel := str_or (m_model m) '''',
                   sessionCwd := str_or (m_cwd m) '''',
                   sessionTools := (case m_tools m of None \<Rightarrow> [] | Some ts \<Rightarrow> ts),
                   sessionPermissionMode := str_or (m_permissionMode m) ''default''\<rparr>
      in case findExistingSessionFile (sessionId st) (disk st) of
        Some existingFile \<Rightarrow>
          removeLastSessionEnd
            (loadPreviousSessionStats existingFile
               (st\<lparr>filePath := existingFile,
                   exchangeCount := getLastExchangeNumber existingFile (disk st)\<rparr>))
      | None \<Rightarrow>
          appendLine
            (SessionStart
               \<lparr>ss_session_id = sessionId st, ss_ts = now, model = sessionModel st,
                cwd = sessionCwd st, tools_available = sessionTools st,
                permission_mode = sessionPermissionMode st\<rparr>)
            (st\<lparr>filePath := new_filename now (sessionId st)\<rparr>))"

text \<open>\<^verbatim>\<open>if (!toolsUsed[name]) toolsUsed[name] = 0; toolsUsed[name]++\<close>\<close>

definition track_tool :: "string \<Rightarrow> (string \<times> int) list \<Rightarrow> (string \<times> int) list" where
  "track_tool n tu = AList.update n (num_or (map_of tu n) + 1) tu"

text \<open>The body of the loop of \<^verbatim>\<open>handleAssistantMessage\<close>, for one block.\<close>

definition assistant_block :: "string \<Rightarrow> block \<Rightarrow> logger \<Rightarrow> logger" where
  "assistant_block ts b st =
     (if b_type b = Some ''text'' \<and> truthy (b_text b) then
        st\<lparr>currentMessages := currentMessages st @ [TextMsg (str_or (b_text b) '''') ts]\<rparr>
      else if b_type b = Some ''tool_use'' \<and> truthy (b_id b) \<and> truthy (b_name b) then
        st\<lparr>currentMessages :=
             currentMessages st
             @ [ToolUseMsg (str_or (b_id b) '''') (str_or (b_name b) '''') (b_input b) ts],
           toolsUsed := track_tool (str_or (b_name b) '''') (toolsUsed st)\<rparr>
      else st)"

definition handleAssistantMessage :: "string \<Rightarrow> block list option \<Rightarrow> logger \<Rightarrow> logger" where
  "handleAssistantMessage now content st =
     (case content of None \<Rightarrow> st | Some bs \<Rightarrow> fold (assistant_block now) bs st)"

definition user_block :: "string \<Rightarrow> block \<Rightarrow> logger \<Rightarrow> logger" where
  "user_block ts b st =
     (if b_type b = Some ''tool_result'' \<and> truthy (b_tool_use_id b) then
        st\<lparr>currentMessages :=
             currentMessages st
             @ [ToolResultMsg (str_or (b_tool_use_id b) '''')
                  (case b_is_error b of None \<Rightarrow> False | Some e \<Rightarrow> e)
                  (case b_content b of
                     None \<Rightarrow> None
                   | Some (StringContent s) \<Rightarrow> Some s
                   | Some (JsonContent s) \<Rightarrow> Some s)
                  ts]\<rparr>
      else st)"

definition handleUserMessage :: "string \<Rightarrow> block list option \<Rightarrow> logger \<Rightarrow> logger" where
  "handleUserMessage now content st =
     (case content of None \<Rightarrow> st | Some bs \<Rightarrow> fold (user_block now) bs st)"

text \<open>The \<^verbatim>\<open>stats\<close> object that \<^verbatim>\<open>handleResultMessage\<close> extracts.\<close>

definition extract_stats :: "result_message \<Rightarrow> exchange_stats" where
  "extract_stats m =
     \<lparr>num_turns = num_or (m_num_turns m),
      duration_ms = num_or (m_duration_ms m),
      duration_api_ms = m_duration_api_ms m,
      tokens_in = (case m_usage m of None \<Rightarrow> 0 | Some u \<Rightarrow> num_or (input_tokens u)),
      tokens_out = (case m_usage m of None \<Rightarrow> 0 | Some u \<Rightarrow> num_or (output_tokens u)),
      st_cache_creation =
        (case m_usage m of None \<Rightarrow> 0 | Some u \<Rightarrow> num_or (cache_creation_input_tokens u)),
      st_cache_read =
        (case m_usage m of None \<Rightarrow> 0 | Some u \<Rightarrow> num_or (cache_read_input_tokens u)),
      cost_usd = num_or (m_total_cost_usd m)\<rparr>"

definition stats_tokens :: "exchange_stats \<Rightarrow> tokens" where
  "stats_tokens s =
     \<lparr>t_input = tokens_in s, t_output = tokens_out s,
      cache_creation = st_cache_creation s, cache_read = st_cache_read s\<rparr>"

definition handleResultMessage :: "string \<Rightarrow> result_message \<Rightarrow> logger \<Rightarrow> logger" where
  "handleResultMessage tsEnd m st0 =
     (let s = extract_stats m;
          ex = \<lparr>ex_session_id = sessionId st0, exchange = exchangeCount st0,
                ts_start = exchangeStartTs st0, ts_end = tsEnd,
                user_input = currentUserInput st0, messages = currentMessages st0,
                stats = s\<rparr>;
          st = appendLine (Exchange ex) st0
      in st\<lparr>totalDurationMs := totalDurationMs st + duration_ms s,
            totalDurationApiMs := totalDurationApiMs st + num_or (duration_api_ms s),
            totalCostUsd := totalCostUsd st + cost_usd s,
            lastExchangeTokens := stats_tokens s,
            currentMessages := [],
            currentUserInput := '''',
            exchangeStartTs := ''''\<rparr>)"

text \<open>\<^verbatim>\<open>log\<close>, named \<open>log_message\<close> here (\<open>log\<close> is the logarithm of the library).\<close>

definition log_message :: "string \<Rightarrow> sdk_message \<Rightarrow> logger \<Rightarrow> logger" where
  "log_message now message st =
     (case message of
        SystemMsg subtype m \<Rightarrow>
          if subtype = Some ''init'' then handleSystemMessage now m st else st
      | AssistantMsg content \<Rightarrow> handleAssistantMessage now content st
      | UserMsg content \<Rightarrow> handleUserMessage now content st
      | ResultMsg m \<Rightarrow> handleResultMessage now m st
      | OtherMsg \<Rightarrow> st)"

definition logUserInput :: "string \<Rightarrow> string \<Rightarrow> logger \<Rightarrow> logger" where
  "logUserInput now userText st =
     st\<lparr>exchangeCount := exchangeCount st + 1,
        exchangeStartTs := now,
        currentUserInput := userText\<rparr>"

text \<open>The \<^verbatim>\<open>session_end\<close> record that \<^verbatim>\<open>close\<close> builds.\<close>

definition session_summary :: "string \<Rightarrow> logger \<Rightarrow> session_end_rec" where
  "session_summary now st =
     \<lparr>se_session_id = sessionId st, se_ts = now,
      total_exchanges = exchangeCount st,
      total_duration_ms = Some (totalDurationMs st),
      total_duration_api_ms = Some (totalDurationApiMs st),
      total_cost_usd = Some (totalCostUsd st),
      total_tokens = Some (lastExchangeTokens st),
      tools_used = Some (toolsUsed st)\<rparr>"

definition close :: "string \<Rightarrow> logger \<Rightarrow> logger" where
  "close now st =
     (if filePath st = [] then st else appendLine (SessionEnd (session_summary now st)) st)"

subsection \<open>Runs of the public interface\<close>

datatype call = Log sdk_message | LogUserInput string | Close

fun step :: "string \<times> call \<Rightarrow> logger \<Rightarrow> logger" where
  "step (now, Log message) st = log_message now message st"
| "step (now, LogUserInput userText) st = logUserInput now userText st"
| "step (now, Close) st = close now st"

definition run :: "(string \<times> call) list \<Rightarrow> logger \<Rightarrow> logger" where
  "run cs st = fold step cs st"

subsection \<open>Notions used to state the properties\<close>

text \<open>The lines of the active log file (none when there is no such file).\<close>

definition active_file :: "logger \<Rightarrow> line list" where
  "active_file st =
     (case readFileSync (disk st) (filePath st) of None \<Rightarrow> [] | Some content \<Rightarrow> content)"

definition is_session_end :: "line \<Rightarrow> bool" where
  "is_session_end l = (case l of SessionEnd parsed \<Rightarrow> True | _ \<Rightarrow> False)"

text \<open>The exchange records of a file, in the order of the file.\<close>

fun exchanges_of :: "line list \<Rightarrow> exchange_rec list" where
  "exchanges_of [] = []"
| "exchanges_of (Exchange parsed # ls) = parsed # exchanges_of ls"
| "exchanges_of (l # ls) = exchanges_of ls"

text \<open>An init-class event, and the calls by kind.\<close>

definition init_event :: "init_message \<Rightarrow> call" where
  "init_event m = Log (SystemMsg (Some ''init'') m)"

definition is_init :: "call \<Rightarrow> bool" where
  "is_init c = (case c of Log (SystemMsg subtype m) \<Rightarrow> subtype = Some ''init'' | _ \<Rightarrow> False)"

definition is_result :: "call \<Rightarrow> bool" where
  "is_result c = (case c of Log (ResultMsg m) \<Rightarrow> True | _ \<Rightarrow> False)"



text \<open>Small messages for the concrete runs.\<close>

definition text_block :: "string \<Rightarrow> block" where
  "text_block s =
     \<lparr>b_type = Some ''text'', b_text = Some s, b_id = None, b_name = None,
      b_input = None, b_tool_use_id = None, b_is_error = None, b_content = None\<rparr>"

definition init_of :: "string \<Rightarrow> init_message" where
  "init_of sid =
     \<lparr>m_session_id = Some sid, m_model = None, m_cwd = None, m_tools = None,
      m_permissionMode = None\<rparr>"

definition result_of :: "int \<Rightarrow> int \<Rightarrow> result_message" where
  "result_of ms tok =
     \<lparr>m_num_turns = Some 1, m_duration_ms = Some ms, m_duration_api_ms = None,
      m_usage = Some \<lparr>input_tokens = Some tok, output_tokens = None,
                      cache_creation_input_tokens = None, cache_read_input_tokens = None\<rparr>,
      m_total_cost_usd = None\<rparr>"

definition exchange_of :: "nat \<Rightarrow> int \<Rightarrow> exchange_rec" where
  "exchange_of n ms =
     \<lparr>ex_session_id = ''abc12345'', exchange = n, ts_start = ''t'', ts_end = ''t'',
      user_input = ''q'', messages = [], stats = extract_stats (result_of ms 0)\<rparr>"

text \<open>
  Blocks that carry too little to be logged: a text block whose text is missing or empty,
  a tool\_use block without its id or its name, a tool\_result block without its
  tool\_use\_id.
\<close>

definition assistant_skipped :: "block \<Rightarrow> bool" where
  "assistant_skipped b =
     (if b_type b = Some ''text'' then b_text b = None \<or> b_text b = Some ''''
      else if b_type b = Some ''tool_use'' then b_id b = None \<or> b_name b = None
      else False)"

definition result_skipped :: "block \<Rightarrow> bool" where
  "result_skipped b = (b_type b = Some ''tool_result'' \<and> b_tool_use_id b = None)"



text \<open>The number of exchange records in all files of the directory.\<close>

definition count_exchanges :: "directory \<Rightarrow> nat" where
  "count_exchanges d = sum_list (map (\<lambda>pf. length (exchanges_of (snd pf))) d)"





text \<open>The sums of the per-exchange statistics over the exchange records of a file.\<close>

definition sum_duration_ms :: "line list \<Rightarrow> int" where
  "sum_duration_ms ls = sum_list (map (\<lambda>parsed. duration_ms (stats parsed)) (exchanges_of ls))"

definition sum_duration_api_ms :: "line list \<Rightarrow> int" where
  "sum_duration_api_ms ls =
     sum_list (map (\<lambda>parsed. num_or (duration_api_ms (stats parsed))) (exchanges_of ls))"

definition sum_cost_usd :: "line list \<Rightarrow> rat" where
  "sum_cost_usd ls = sum_list (map (\<lambda>parsed. cost_usd (stats parsed)) (exchanges_of ls))"





section \<open>Properties\<close>

lemmas eval_defs =
  run_def log_message_def handleSystemMessage_def createSessionLogger_def str_or_def num_or_def
  findExistingSessionFile_def readdirSync_def new_filename_def sessionIdShort_def
  appendLine_def appendFileSync_def writeFileSync_def logUserInput_def endsWith_def
  getLastExchangeNumber_def readFileSync_def split_lines_def throws_def
  loadPreviousSessionStats_def removeLastSessionEnd_def existsSync_def
  handleAssistantMessage_def handleUserMessage_def assistant_block_def user_block_def
  truthy_def track_tool_def handleResultMessage_def extract_stats_def stats_tokens_def
  close_def session_summary_def zero_tokens_def object_assign_def active_file_def
  is_session_end_def text_block_def init_of_def
  result_of_def exchange_of_def init_event_def

subsection \<open>Blocks that are skipped\<close>

lemma assistant_block_skipped: "assistant_skipped b \<Longrightarrow> assistant_block ts b st = st"
  by (auto simp: assistant_skipped_def assistant_block_def truthy_def split: if_splits)

lemma user_block_skipped: "result_skipped b \<Longrightarrow> user_block ts b st = st"
  by (auto simp: result_skipped_def user_block_def truthy_def)

text \<open>
  C10. An assistant block whose text is missing or empty, or a tool\_use block without id
  or name, is skipped, and so is a tool\_result block without tool\_use\_id: a message
  with such a block leaves the logger (buffer, tool counts and all the rest) as the same
  message without the block does.
\<close>

theorem C10_skipped_blocks:
  "(assistant_skipped b \<longrightarrow>
      log_message now (AssistantMsg (Some (pre @ [b] @ post))) st
      = log_message now (AssistantMsg (Some (pre @ post))) st)
   \<and> (result_skipped b \<longrightarrow>
      log_message now (UserMsg (Some (pre @ [b] @ post))) st
      = log_message now (UserMsg (Some (pre @ post))) st)"
  by (simp add: log_message_def handleAssistantMessage_def handleUserMessage_def
      assistant_block_skipped user_block_skipped)

theorem C10_skipped_blocks_witness:
  "assistant_skipped ((text_block '''')\<lparr>b_type := Some ''tool_use'', b_id := Some ''toolu_1''\<rparr>)
   \<and> toolsUsed (log_message ''t1'' (AssistantMsg (Some ([text_block ''a'']
        @ [(text_block '''')\<lparr>b_type := Some ''tool_use'', b_id := Some ''toolu_1''\<rparr>] @ [])))
        (createSessionLogger [])) = []
   \<and> currentMessages (log_message ''t1'' (AssistantMsg (Some ([text_block ''a'']
        @ [(text_block '''')\<lparr>b_type := Some ''tool_use'', b_id := Some ''toolu_1''\<rparr>] @ [])))
        (createSessionLogger [])) = [TextMsg ''a'' ''t1'']
   \<and> result_skipped ((text_block ''x'')\<lparr>b_type := Some ''tool_result''\<rparr>)
   \<and> currentMessages (log_message ''t1'' (UserMsg (Some ([]
        @ [(text_block ''x'')\<lparr>b_type := Some ''tool_result''\<rparr>] @ [])))
        (createSessionLogger [])) = []"
  using C10_skipped_blocks [of "(text_block '''')\<lparr>b_type := Some ''tool_use'', b_id := Some ''toolu_1''\<rparr>"
      "''t1''" "[text_block ''a'']" "[]" "createSessionLogger []"]
    C10_skipped_blocks [of "(text_block ''x'')\<lparr>b_type := Some ''tool_result''\<rparr>"
      "''t1''" "[]" "[]" "createSessionLogger []"]
  by (simp add: assistant_skipped_def result_skipped_def text_block_def log_message_def
      handleAssistantMessage_def handleUserMessage_def assistant_block_def truthy_def str_or_def
      createSessionLogger_def)

subsection \<open>The directory\<close>

lemma find_Some_mem: "List.find P xs = Some x \<Longrightarrow> x \<in> set xs \<and> P x"
  by (induction xs) (auto split: if_splits)

lemma findExisting_facts:
  assumes "findExistingSessionFile sid d = Some f"
  shows "f \<noteq> []" and "map_of d f \<noteq> None"
    and "endsWith f (''_'' @ sessionIdShort sid @ ''.jsonl'')"
proof -
  from assms have m: "f \<in> set (map fst d)"
    and e: "endsWith f (''_'' @ sessionIdShort sid @ ''.jsonl'')"
    using find_Some_mem [of _ "readdirSync d" f]
    by (auto simp: findExistingSessionFile_def readdirSync_def)
  from e show "f \<noteq> []" by (auto simp: endsWith_def)
  from m show "map_of d f \<noteq> None" by (simp add: map_of_eq_None_iff)
  from e show "endsWith f (''_'' @ sessionIdShort sid @ ''.jsonl'')" .
qed

lemma new_filename_nonempty: "new_filename now sid \<noteq> []"
  by (simp add: new_filename_def)

subsection \<open>The scan for the last exchange number\<close>

lemma scan_exchanges_throws:
  "list_ex throws ls \<Longrightarrow> scan_exchanges ls n = None"
  by (induction ls arbitrary: n) (auto split: line.splits)

lemma exchangeCount_loadPreviousSessionStats [simp]:
  "exchangeCount (loadPreviousSessionStats p st) = exchangeCount st"
  by (simp add: loadPreviousSessionStats_def split: option.splits)

lemma exchangeCount_removeLastSessionEnd [simp]:
  "exchangeCount (removeLastSessionEnd st) = exchangeCount st"
  by (simp add: removeLastSessionEnd_def Let_def split: option.splits line.splits)

text \<open>
  C9. On resumption every line of the adopted file is parsed inside one try block: if some
  line does not parse, the scan returns 0, so the exchange counter restarts from 0 and the
  next exchange is numbered 1, whatever exchange records the file holds.
\<close>

theorem C9_unparseable_line_resets_counter:
  assumes "findExistingSessionFile (str_or (m_session_id m) '''') (disk st) = Some f"
    and "readFileSync (disk st) f = Some content"
    and "Malformed \<in> set content"
  shows "getLastExchangeNumber f (disk st) = 0
    \<and> exchangeCount (log_message now (SystemMsg (Some ''init'') m) st) = 0
    \<and> exchangeCount
        (logUserInput now' userText (log_message now (SystemMsg (Some ''init'') m) st)) = 1"
proof -
  from assms(3) have "content \<noteq> []" and "list_ex throws content"
    by (force simp: list_ex_iff throws_def)+
  then have "scan_exchanges (split_lines content) 0 = None"
    by (simp add: split_lines_def scan_exchanges_throws)
  with assms(2) have g: "getLastExchangeNumber f (disk st) = 0"
    by (simp add: getLastExchangeNumber_def)
  with assms(1) show ?thesis
    by (simp add: log_message_def handleSystemMessage_def Let_def logUserInput_def)
qed

theorem C9_unparseable_line_resets_counter_witness:
  "findExistingSessionFile (str_or (m_session_id (init_of ''abc12345'')) '''')
       (disk (createSessionLogger
          [(''20250101_000000_abc12345.jsonl'', [Exchange (exchange_of 3 10), Malformed])]))
     = Some ''20250101_000000_abc12345.jsonl''
   \<and> exchange (exchange_of 3 10) = 3
   \<and> exchangeCount (logUserInput ''t1'' ''q''
        (log_message ''t0'' (SystemMsg (Some ''init'') (init_of ''abc12345''))
          (createSessionLogger
            [(''20250101_000000_abc12345.jsonl'', [Exchange (exchange_of 3 10), Malformed])])))
     = 1"
  using C9_unparseable_line_resets_counter [of "init_of ''abc12345''"
      "createSessionLogger
         [(''20250101_000000_abc12345.jsonl'', [Exchange (exchange_of 3 10), Malformed])]"
      "''20250101_000000_abc12345.jsonl''" "[Exchange (exchange_of 3 10), Malformed]"
      "''t0''" "''t1''" "''q''"]
  by (simp add: init_of_def createSessionLogger_def str_or_def findExistingSessionFile_def
      readdirSync_def sessionIdShort_def endsWith_def readFileSync_def exchange_of_def)

subsection \<open>What each function leaves alone\<close>

lemma fold_keeps:
  assumes "\<And>x s. f (g x s) = f s"
  shows "f (fold g xs s) = f s"
  by (induction xs arbitrary: s) (simp_all add: assms)

lemma assistant_block_keeps [simp]:
  "filePath (assistant_block now b st) = filePath st"
  "disk (assistant_block now b st) = disk st"
  "exchangeCount (assistant_block now b st) = exchangeCount st"
  "currentUserInput (assistant_block now b st) = currentUserInput st"
  "exchangeStartTs (assistant_block now b st) = exchangeStartTs st"
  "totalDurationMs (assistant_block now b st) = totalDurationMs st"
  "totalDurationApiMs (assistant_block now b st) = totalDurationApiMs st"
  "totalCostUsd (assistant_block now b st) = totalCostUsd st"
  "lastExchangeTokens (assistant_block now b st) = lastExchangeTokens st"
  "sessionId (assistant_block now b st) = sessionId st"
  by (simp_all add: assistant_block_def)

lemma user_block_keeps [simp]:
  "filePath (user_block now b st) = filePath st"
  "disk (user_block now b st) = disk st"
  "exchangeCount (user_block now b st) = exchangeCount st"
  "currentUserInput (user_block now b st) = currentUserInput st"
  "exchangeStartTs (user_block now b st) = exchangeStartTs st"
  "totalDurationMs (user_block now b st) = totalDurationMs st"
  "totalDurationApiMs (user_block now b st) = totalDurationApiMs st"
  "totalCostUsd (user_block now b st) = totalCostUsd st"
  "lastExchangeTokens (user_block now b st) = lastExchangeTokens st"
  "toolsUsed (user_block now b st) = toolsUsed st"
  "sessionId (user_block now b st) = sessionId st"
  by (simp_all add: user_block_def)

lemma handleAssistantMessage_keeps [simp]:
  "filePath (handleAssistantMessage now content st) = filePath st"
  "disk (handleAssistantMessage now content st) = disk st"
  "exchangeCount (handleAssistantMessage now content st) = exchangeCount st"
  "currentUserInput (handleAssistantMessage now content st) = currentUserInput st"
  "exchangeStartTs (handleAssistantMessage now content st) = exchangeStartTs st"
  "totalDurationMs (handleAssistantMessage now content st) = totalDurationMs st"
  "totalDurationApiMs (handleAssistantMessage now content st) = totalDurationApiMs st"
  "totalCostUsd (handleAssistantMessage now content st) = totalCostUsd st"
  "lastExchangeTokens (handleAssistantMessage now content st) = lastExchangeTokens st"
  "sessionId (handleAssistantMessage now content st) = sessionId st"
  by (cases content; simp add: handleAssistantMessage_def fold_keeps)+

lemma handleUserMessage_keeps [simp]:
  "filePath (handleUserMessage now content st) = filePath st"
  "disk (handleUserMessage now content st) = disk st"
  "exchangeCount (handleUserMessage now content st) = exchangeCount st"
  "currentUserInput (handleUserMessage now content st) = currentUserInput st"
  "exchangeStartTs (handleUserMessage now content st) = exchangeStartTs st"
  "totalDurationMs (handleUserMessage now content st) = totalDurationMs st"
  "totalDurationApiMs (handleUserMessage now content st) = totalDurationApiMs st"
  "totalCostUsd (handleUserMessage now content st) = totalCostUsd st"
  "lastExchangeTokens (handleUserMessage now content st) = lastExchangeTokens st"
  "toolsUsed (handleUserMessage now content st) = toolsUsed st"
  "sessionId (handleUserMessage now content st) = sessionId st"
  by (cases content; simp add: handleUserMessage_def fold_keeps)+

lemma loadPreviousSessionStats_keeps [simp]:
  "disk (loadPreviousSessionStats p st) = disk st"
  "filePath (loadPreviousSessionStats p st) = filePath st"
  "currentMessages (loadPreviousSessionStats p st) = currentMessages st"
  "currentUserInput (loadPreviousSessionStats p st) = currentUserInput st"
  "exchangeStartTs (loadPreviousSessionStats p st) = exchangeStartTs st"
  by (simp_all add: loadPreviousSessionStats_def split: option.splits)

lemma removeLastSessionEnd_keeps [simp]:
  "filePath (removeLastSessionEnd st) = filePath st"
  "currentMessages (removeLastSessionEnd st) = currentMessages st"
  "currentUserInput (removeLastSessionEnd st) = currentUserInput st"
  "exchangeStartTs (removeLastSessionEnd st) = exchangeStartTs st"
  "totalDurationMs (removeLastSessionEnd st) = totalDurationMs st"
  "totalDurationApiMs (removeLastSessionEnd st) = totalDurationApiMs st"
  "totalCostUsd (removeLastSessionEnd st) = totalCostUsd st"
  "lastExchangeTokens (removeLastSessionEnd st) = lastExchangeTokens st"
  "toolsUsed (removeLastSessionEnd st) = toolsUsed st"
  "sessionId (removeLastSessionEnd st) = sessionId st"
  by (simp_all add: removeLastSessionEnd_def Let_def split: option.splits line.splits)

lemma appendLine_keeps [simp]:
  "filePath (appendLine l st) = filePath st"
  "exchangeCount (appendLine l st) = exchangeCount st"
  "currentMessages (appendLine l st) = currentMessages st"
  "currentUserInput (appendLine l st) = currentUserInput st"
  "exchangeStartTs (appendLine l st) = exchangeStartTs st"
  "totalDurationMs (appendLine l st) = totalDurationMs st"
  "totalDurationApiMs (appendLine l st) = totalDurationApiMs st"
  "totalCostUsd (appendLine l st) = totalCostUsd st"
  "lastExchangeTokens (appendLine l st) = lastExchangeTokens st"
  "toolsUsed (appendLine l st) = toolsUsed st"
  "sessionId (appendLine l st) = sessionId st"
  by (simp_all add: appendLine_def)

lemma handleSystemMessage_keeps [simp]:
  "currentMessages (handleSystemMessage now m st) = currentMessages st"
  "currentUserInput (handleSystemMessage now m st) = currentUserInput st"
  "exchangeStartTs (handleSystemMessage now m st) = exchangeStartTs st"
  by (simp_all add: handleSystemMessage_def Let_def split: option.splits)

lemma filePath_handleSystemMessage:
  "filePath (handleSystemMessage now m st) \<noteq> []"
  by (auto simp: handleSystemMessage_def Let_def new_filename_nonempty
      dest: findExisting_facts(1) split: option.splits)

lemma active_file_appendLine:
  "filePath st \<noteq> [] \<Longrightarrow> active_file (appendLine l st) = active_file st @ [l]"
  by (simp add: active_file_def appendLine_def appendFileSync_def writeFileSync_def
      readFileSync_def update_conv' split: option.splits)

lemma close_facts:
  assumes "filePath st \<noteq> []"
  shows "active_file (close now st) = active_file st @ [SessionEnd (session_summary now st)]"
    and "filePath (close now st) = filePath st"
    and "session_summary now' (close now st) = session_summary now' st"
  using assms by (simp_all add: close_def active_file_appendLine session_summary_def)

subsection \<open>Beginning an exchange\<close>

text \<open>
  C6 as stated fails: \<^verbatim>\<open>logUserInput\<close> does not clear the sub-event buffer. A sub-event
  buffered for an exchange that never completed is still there after the next exchange is
  begun.
\<close>

theorem C6_buffer_not_cleared_counterexample:
  "currentMessages
     (run [(''t0'', init_event (init_of ''abc12345'')),
           (''t1'', LogUserInput ''q1''),
           (''t2'', Log (AssistantMsg (Some [text_block ''a1'']))),
           (''t3'', LogUserInput ''q2'')]
        (createSessionLogger [])) = [TextMsg ''a1'' ''t2'']"
  by (simp add: eval_defs)

text \<open>
  C6, amended. In any state \<^verbatim>\<open>logUserInput\<close> increments the exchange counter, records the
  start timestamp and stores the input text; it leaves the sub-event buffer and the files
  as they are. So the record that a completion right after it appends carries the new
  ordinal, timestamp and text together with the sub-events buffered before the call.
\<close>

theorem C6_logUserInput:
  "exchangeCount (logUserInput now userText st) = exchangeCount st + 1
   \<and> exchangeStartTs (logUserInput now userText st) = now
   \<and> currentUserInput (logUserInput now userText st) = userText
   \<and> currentMessages (logUserInput now userText st) = currentMessages st
   \<and> disk (logUserInput now userText st) = disk st
   \<and> (filePath st \<noteq> [] \<longrightarrow>
        (\<exists>ex. active_file (log_message now' (ResultMsg rm) (logUserInput now userText st))
               = active_file st @ [Exchange ex]
             \<and> exchange ex = exchangeCount st + 1 \<and> ts_start ex = now
             \<and> user_input ex = userText \<and> messages ex = currentMessages st))"
proof -
  let ?st = "logUserInput now userText st"
  have same: "active_file ?st = active_file st"
    by (simp add: active_file_def logUserInput_def)
  have "active_file (handleResultMessage now' rm ?st)
        = active_file ?st @ [Exchange \<lparr>ex_session_id = sessionId ?st,
            exchange = exchangeCount ?st, ts_start = exchangeStartTs ?st, ts_end = now',
            user_input = currentUserInput ?st, messages = currentMessages ?st,
            stats = extract_stats rm\<rparr>]"
    if "filePath st \<noteq> []"
    using that active_file_appendLine [of ?st]
    by (simp add: handleResultMessage_def Let_def active_file_def logUserInput_def)
  then show ?thesis
    by (simp add: log_message_def same) (simp add: logUserInput_def)
qed

theorem C6_logUserInput_witness:
  "filePath (run [(''t0'', init_event (init_of ''abc12345''))] (createSessionLogger [])) \<noteq> []
   \<and> map (\<lambda>ex. (exchange ex, ts_start ex, user_input ex, messages ex))
       (exchanges_of (active_file
          (log_message ''t2'' (ResultMsg (result_of 5 1))
             (logUserInput ''t1'' ''q''
                (run [(''t0'', init_event (init_of ''abc12345''))] (createSessionLogger []))))))
     = [(1, ''t1'', ''q'', [])]"
  using C6_logUserInput [of "''t1''" "''q''"
      "run [(''t0'', init_event (init_of ''abc12345''))] (createSessionLogger [])"
      "''t2''" "result_of 5 1"]
  by (simp add: eval_defs)

subsection \<open>Closing more than once\<close>

text \<open>
  C5 as stated fails: after an init event and two calls of \<^verbatim>\<open>close\<close> the file holds two
  \<^verbatim>\<open>session_end\<close> records, not one.
\<close>

theorem C5_close_twice_counterexample:
  "length (filter is_session_end
     (active_file
        (run [(''t0'', init_event (init_of ''abc12345'')), (''t1'', Close), (''t2'', Close)]
           (createSessionLogger [])))) = 2"
  by (simp add: eval_defs)

text \<open>
  C5, amended. Every call of \<^verbatim>\<open>close\<close> on an initialized logger appends one more
  \<^verbatim>\<open>session_end\<close> record holding the current totals and removes nothing: after the calls at
  the times \<open>ts\<close> the file is the old file followed by one summary per call, so its last
  line reflects the current totals and the earlier summaries stay before it.
\<close>

theorem C5_close_appends:
  assumes "filePath st \<noteq> []"
  shows "active_file (run (map (\<lambda>t. (t, Close)) ts) st)
         = active_file st @ map (\<lambda>t. SessionEnd (session_summary t st)) ts"
  using assms
proof (induction ts arbitrary: st)
  case Nil
  then show ?case by (simp add: run_def)
next
  case (Cons t ts)
  have "run (map (\<lambda>t. (t, Close)) (t # ts)) st = run (map (\<lambda>t. (t, Close)) ts) (close t st)"
    by (simp add: run_def)
  moreover have "filePath (close t st) \<noteq> []"
    using Cons.prems by (simp add: close_facts)
  ultimately show ?case
    using Cons.IH [of "close t st"] Cons.prems by (simp add: close_facts)
qed

theorem C5_close_appends_witness:
  "filePath (log_message ''t0'' (SystemMsg (Some ''init'') (init_of ''abc12345''))
              (createSessionLogger [])) \<noteq> []
   \<and> map is_session_end
       (active_file (run (map (\<lambda>t. (t, Close)) [''t1'', ''t2''])
          (log_message ''t0'' (SystemMsg (Some ''init'') (init_of ''abc12345''))
             (createSessionLogger []))))
     = [False, True, True]"
  using C5_close_appends [of "log_message ''t0'' (SystemMsg (Some ''init'') (init_of ''abc12345''))
             (createSessionLogger [])" "[''t1'', ''t2'']"]
  by (simp add: eval_defs)

subsection \<open>Resumption\<close>







subsection \<open>A completion without a begun exchange\<close>

lemma handleResultMessage_facts:
  "filePath (handleResultMessage now rm st) = filePath st"
  "exchangeCount (handleResultMessage now rm st) = exchangeCount st"
  "currentMessages (handleResultMessage now rm st) = []"
  "currentUserInput (handleResultMessage now rm st) = []"
  "exchangeStartTs (handleResultMessage now rm st) = []"
  "sessionId (handleResultMessage now rm st) = sessionId st"
  by (simp_all add: handleResultMessage_def Let_def)

lemma close_keeps [simp]:
  "filePath (close now st) = filePath st"
  "exchangeCount (close now st) = exchangeCount st"
  "currentMessages (close now st) = currentMessages st"
  "currentUserInput (close now st) = currentUserInput st"
  "exchangeStartTs (close now st) = exchangeStartTs st"
  "totalDurationMs (close now st) = totalDurationMs st"
  "totalDurationApiMs (close now st) = totalDurationApiMs st"
  "totalCostUsd (close now st) = totalCostUsd st"
  "lastExchangeTokens (close now st) = lastExchangeTokens st"
  "toolsUsed (close now st) = toolsUsed st"
  "sessionId (close now st) = sessionId st"
  by (simp_all add: close_def)

lemma step_not_init_filePath:
  "\<not> is_init c \<Longrightarrow> filePath (step (t, c) st) = filePath st"
proof (cases c)
  case (Log message)
  assume "\<not> is_init c"
  with Log show ?thesis
    by (cases message)
      (simp_all add: is_init_def log_message_def handleResultMessage_facts)
qed (simp_all add: logUserInput_def)


lemma run_Cons: "run (tc # cs) st = run cs (step tc st)"
  by (simp add: run_def)







subsection \<open>One exchange record for each completion\<close>

lemma exchanges_of_append:
  "exchanges_of (xs @ ys) = exchanges_of xs @ exchanges_of ys"
  by (induction xs rule: exchanges_of.induct) simp_all

lemma exchanges_of_butlast:
  assumes "ls \<noteq> []" and "is_session_end (last ls)"
  shows "exchanges_of (butlast ls) = exchanges_of ls"
proof -
  have "ls = butlast ls @ [last ls]" using assms(1) by simp
  then have "exchanges_of ls = exchanges_of (butlast ls) @ exchanges_of [last ls]"
    using exchanges_of_append [of "butlast ls" "[last ls]"] by simp
  moreover have "exchanges_of [last ls] = []"
    using assms(2) by (cases "last ls") (simp_all add: is_session_end_def)
  ultimately show ?thesis by simp
qed

lemma count_exchanges_update:
  "count_exchanges (AList.update p f d)
     + (case map_of d p of None \<Rightarrow> 0 | Some g \<Rightarrow> length (exchanges_of g))
   = count_exchanges d + length (exchanges_of f)"
  by (induction d) (auto simp: count_exchanges_def)

lemma count_exchanges_appendLine:
  "filePath st \<noteq> [] \<Longrightarrow>
   count_exchanges (disk (appendLine l st))
   = count_exchanges (disk st) + length (exchanges_of [l])"
proof (cases "map_of (disk st) (filePath st)")
  case None
  assume "filePath st \<noteq> []"
  with None show ?thesis
    using count_exchanges_update [of "filePath st" "[l]" "disk st"]
    by (simp add: appendLine_def appendFileSync_def writeFileSync_def)
next
  case (Some g)
  assume "filePath st \<noteq> []"
  with Some show ?thesis
    using count_exchanges_update [of "filePath st" "g @ [l]" "disk st"]
    by (simp add: appendLine_def appendFileSync_def writeFileSync_def exchanges_of_append)
qed

lemma count_exchanges_removeLastSessionEnd:
  "count_exchanges (disk (removeLastSessionEnd st)) = count_exchanges (disk st)"
proof (cases "readFileSync (disk st) (filePath st)")
  case None
  then show ?thesis by (simp add: removeLastSessionEnd_def)
next
  case (Some content)
  show ?thesis
  proof (cases "is_session_end (last (split_lines content))")
    case False
    with Some show ?thesis
      by (cases "last (split_lines content)")
        (simp_all add: removeLastSessionEnd_def Let_def is_session_end_def)
  next
    case True
    then have ne: "content \<noteq> []" and se: "is_session_end (last content)"
      by (auto simp: split_lines_def is_session_end_def split: if_splits)
    have "count_exchanges (AList.update (filePath st) (butlast content) (disk st))
          = count_exchanges (disk st)"
      using count_exchanges_update [of "filePath st" "butlast content" "disk st"] Some
        exchanges_of_butlast [OF ne se]
      by (simp add: readFileSync_def)
    with Some ne se show ?thesis
      by (cases "last content")
        (simp_all add: removeLastSessionEnd_def Let_def is_session_end_def split_lines_def
          writeFileSync_def)
  qed
qed

lemma count_exchanges_handleSystemMessage:
  "count_exchanges (disk (handleSystemMessage now m st)) = count_exchanges (disk st)"
proof (cases "findExistingSessionFile (str_or (m_session_id m) '''') (disk st)")
  case None
  then show ?thesis
    by (simp add: handleSystemMessage_def Let_def count_exchanges_appendLine
        new_filename_nonempty)
next
  case (Some f)
  then show ?thesis
    by (simp add: handleSystemMessage_def Let_def count_exchanges_removeLastSessionEnd)
qed

lemma count_exchanges_handleResultMessage:
  "filePath st \<noteq> [] \<Longrightarrow>
   count_exchanges (disk (handleResultMessage now rm st)) = count_exchanges (disk st) + 1"
  by (simp add: handleResultMessage_def Let_def count_exchanges_appendLine)

lemma count_exchanges_close:
  "count_exchanges (disk (close now st)) = count_exchanges (disk st)"
  by (simp add: close_def count_exchanges_appendLine)

lemma step_filePath_nonempty:
  "filePath st \<noteq> [] \<Longrightarrow> filePath (step (t, c) st) \<noteq> []"
proof (cases "is_init c")
  case False
  assume "filePath st \<noteq> []"
  with False show ?thesis by (simp add: step_not_init_filePath)
next
  case True
  then obtain m where "c = Log (SystemMsg (Some ''init'') m)"
    by (auto simp: is_init_def split: call.splits sdk_message.splits)
  then show ?thesis by (simp add: log_message_def filePath_handleSystemMessage)
qed

lemma count_exchanges_step:
  assumes "filePath st \<noteq> []"
  shows "count_exchanges (disk (step (t, c) st))
         = count_exchanges (disk st) + (if is_result c then 1 else 0)"
proof (cases c)
  case (Log message)
  with assms show ?thesis
    by (cases message)
      (simp_all add: is_result_def log_message_def count_exchanges_handleSystemMessage
        count_exchanges_handleResultMessage)
next
  case (LogUserInput userText)
  then show ?thesis by (simp add: is_result_def logUserInput_def)
next
  case Close
  then show ?thesis by (simp add: is_result_def count_exchanges_close)
qed

lemma count_exchanges_run:
  "filePath st \<noteq> [] \<Longrightarrow>
   count_exchanges (disk (run cs st))
   = count_exchanges (disk st) + length (filter (\<lambda>tc. is_result (snd tc)) cs)"
proof (induction cs arbitrary: st)
  case Nil
  then show ?case by (simp add: run_def)
next
  case (Cons tc cs)
  obtain t c where tc: "tc = (t, c)" by (cases tc)
  have "filePath (step tc st) \<noteq> []"
    using Cons.prems by (simp add: tc step_filePath_nonempty)
  then show ?case
    using Cons.IH [of "step tc st"] Cons.prems
    by (simp add: run_Cons tc count_exchanges_step)
qed

text \<open>
  C7. For every sequence of calls that begins with an init event, the number of exchange
  records appended to the log equals the number of completion events observed: the count
  of exchange records over the files of the sessions directory grows by exactly the
  number of result events of the sequence.
\<close>

theorem C7_one_record_per_completion:
  "count_exchanges (disk (run ((now, init_event m) # cs) (createSessionLogger d)))
   = count_exchanges d + length (filter (\<lambda>tc. is_result (snd tc)) cs)"
proof -
  have "filePath (step (now, init_event m) (createSessionLogger d)) \<noteq> []"
    by (simp add: init_event_def log_message_def filePath_handleSystemMessage)
  moreover have "count_exchanges (disk (step (now, init_event m) (createSessionLogger d)))
    = count_exchanges d"
    by (simp add: init_event_def log_message_def count_exchanges_handleSystemMessage
        createSessionLogger_def)
  ultimately show ?thesis
    by (simp add: run_Cons count_exchanges_run)
qed

theorem C7_one_record_per_completion_witness:
  "length (exchanges_of (active_file
     (run ((''t0'', init_event (init_of ''abc12345''))
           # [(''t1'', LogUserInput ''q''), (''t2'', Log (ResultMsg (result_of 5 1))),
              (''t3'', Close), (''t4'', Log (ResultMsg (result_of 7 2)))])
        (createSessionLogger [])))) = 2
   \<and> count_exchanges (disk
     (run ((''t0'', init_event (init_of ''abc12345''))
           # [(''t1'', LogUserInput ''q''), (''t2'', Log (ResultMsg (result_of 5 1))),
              (''t3'', Close), (''t4'', Log (ResultMsg (result_of 7 2)))])
        (createSessionLogger []))) = 2"
  using C7_one_record_per_completion [of "''t0''" "init_of ''abc12345''"
      "[(''t1'', LogUserInput ''q''), (''t2'', Log (ResultMsg (result_of 5 1))),
        (''t3'', Close), (''t4'', Log (ResultMsg (result_of 7 2)))]" "[]"]
  by (simp add: eval_defs count_exchanges_def is_result_def)

subsection \<open>The token snapshot\<close>














subsection \<open>The summed totals\<close>




lemma sums_single [simp]:
  "sum_duration_ms [Exchange parsed] = duration_ms (stats parsed)"
  "sum_duration_api_ms [Exchange parsed] = num_or (duration_api_ms (stats parsed))"
  "sum_cost_usd [Exchange parsed] = cost_usd (stats parsed)"
  "sum_duration_ms [SessionEnd e] = 0"
  "sum_duration_api_ms [SessionEnd e] = 0"
  "sum_cost_usd [SessionEnd e] = 0"
  "sum_duration_ms [SessionStart s] = 0"
  "sum_duration_api_ms [SessionStart s] = 0"
  "sum_cost_usd [SessionStart s] = 0"
  "sum_duration_ms [] = 0"
  "sum_duration_api_ms [] = 0"
  "sum_cost_usd [] = 0"
  by (simp_all add: sum_duration_ms_def sum_duration_api_ms_def sum_cost_usd_def)










subsection \<open>A second init event\<close>











end
